theory Spec2Isabelle
  imports Complex_Main "HOL-Library.AList"
begin

section \<open>Data model: cells, series and tables\<close>

text \<open>
  The program (\<^verbatim>\<open>src/app.py\<close>) works on pandas tables. A cell of a table is one of
  \<^item> \<open>Null\<close>: a missing value (\<^verbatim>\<open>NaN\<close>, \<^verbatim>\<open>None\<close>, \<^verbatim>\<open>NaT\<close>), the values for which
    \<^verbatim>\<open>pd.isnull\<close> answers True;
  \<^item> \<open>Num r\<close>: a value that \<^verbatim>\<open>float()\<close> converts to the number \<open>r\<close>;
  \<^item> \<open>NonNumeric\<close>: a value that is not missing and that \<^verbatim>\<open>float()\<close> rejects.

  Numbers are real numbers: arithmetic is exact, the rounding of IEEE doubles and the
  infinities are not part of this model.

  A column (a pandas Series taken from a table) maps the row position to its cell; the
  table stores how many rows it has, so every column of a table has one cell per row.
\<close>

datatype py_error = ValueError string | KeyError | IndexError | TypeError | DataError

datatype cell = Null | Num real | NonNumeric

type_synonym series = "nat \<Rightarrow> cell"

record frame =
  nrows :: nat
  index_name :: "string option"
  index :: series
  columns :: "(string \<times> series) list"

type_synonym row = "(string \<times> cell) list"

text \<open>The tuple returned by \<^verbatim>\<open>make_decision\<close>: decision, entry, take profit, stop loss,
  risk-reward ratio; \<open>None\<close> is Python's \<^verbatim>\<open>None\<close>.\<close>

type_synonym recommendation = "string \<times> real option \<times> real option \<times> real option \<times> int option"

definition bind_err :: "py_error + 'a \<Rightarrow> ('a \<Rightarrow> py_error + 'b) \<Rightarrow> py_error + 'b" where
  "bind_err m f = (case m of Inl e \<Rightarrow> Inl e | Inr x \<Rightarrow> f x)"

subsection \<open>The pandas and Python operations the program calls\<close>

text \<open>\<^verbatim>\<open>len(data)\<close>\<close>

definition len :: "frame \<Rightarrow> nat" where
  "len data = nrows data"

text \<open>\<^verbatim>\<open>data.iloc[-1]\<close>: the last row, labelled by the column names; IndexError on a table
  without rows.\<close>

definition iloc_last :: "frame \<Rightarrow> py_error + row" where
  "iloc_last data =
     (if nrows data = 0 then Inl IndexError
      else Inr (map (\<lambda>(c, s). (c, s (nrows data - 1))) (columns data)))"

text \<open>\<^verbatim>\<open>latest[c]\<close>: KeyError when the label is absent.\<close>

definition getitem :: "row \<Rightarrow> string \<Rightarrow> py_error + cell" where
  "getitem latest c = (case map_of latest c of None \<Rightarrow> Inl KeyError | Some v \<Rightarrow> Inr v)"

text \<open>Indexing \<^verbatim>\<open>latest\<close> with a list of labels (line 54): the cells under the labels,
  KeyError when one is absent.\<close>

fun getitems :: "row \<Rightarrow> string list \<Rightarrow> py_error + cell list" where
  "getitems latest [] = Inr []"
| "getitems latest (c # cs) =
     bind_err (getitem latest c) (\<lambda>v. bind_err (getitems latest cs) (\<lambda>vs. Inr (v # vs)))"

fun isnull :: "cell \<Rightarrow> bool" where
  "isnull Null = True"
| "isnull (Num r) = False"
| "isnull NonNumeric = False"

text \<open>
  \<^verbatim>\<open>float(x)\<close>. On a missing value \<^verbatim>\<open>float(None)\<close> raises TypeError and \<^verbatim>\<open>float(nan)\<close>
  is \<^verbatim>\<open>nan\<close>, on which every comparison of line 67 is False; the model takes the raising
  branch. \<^verbatim>\<open>make_decision\<close> returns at line 55 before \<^verbatim>\<open>float\<close> sees a missing value.
\<close>

fun py_float :: "cell \<Rightarrow> py_error + real" where
  "py_float (Num r) = Inr r"
| "py_float Null = Inl TypeError"
| "py_float NonNumeric = Inl (ValueError ''could not convert to float'')"

section \<open>The decision rule (\<^verbatim>\<open>make_decision\<close>, lines 47-70)\<close>

definition required :: "string list" where
  "required = [''SMA_50'', ''SMA_200'', ''Volatility'', ''Close'', ''Support'']"

definition hold :: recommendation where
  "hold = (''HOLD'', None, None, None, None)"

text \<open>The body of the \<^verbatim>\<open>try\<close> block, lines 58-62.\<close>

definition read_indicators :: "row \<Rightarrow> py_error + (real \<times> real \<times> real \<times> real \<times> real)" where
  "read_indicators latest =
     bind_err (bind_err (getitem latest ''SMA_50'') py_float) (\<lambda>sma_50.
     bind_err (bind_err (getitem latest ''SMA_200'') py_float) (\<lambda>sma_200.
     bind_err (bind_err (getitem latest ''Volatility'') py_float) (\<lambda>volatility.
     bind_err (bind_err (getitem latest ''Close'') py_float) (\<lambda>close.
     bind_err (bind_err (getitem latest ''Support'') py_float) (\<lambda>support.
       Inr (sma_50, sma_200, volatility, close, support))))))"

definition make_decision :: "frame \<Rightarrow> py_error + recommendation" where
  "make_decision data =
     (if len data < 200 then Inr hold
      else bind_err (iloc_last data) (\<lambda>latest.
        bind_err (getitems latest required) (\<lambda>sel.
          if list_ex isnull sel then Inr hold
          else (case read_indicators latest of
                  Inl e \<Rightarrow> Inr hold
                | Inr (sma_50, sma_200, volatility, close, support) \<Rightarrow>
                    if sma_50 > sma_200 \<and> volatility < 0.02 \<and> close > support
                    then Inr (''BUY'', Some close, Some (close * 1.02), Some (close * 0.98), Some 2)
                    else Inr hold))))"

section \<open>The decision rule in double precision\<close>

text \<open>
  Python's \<^verbatim>\<open>float\<close> is an IEEE binary64 number: a real with a 53-bit significand.
  \<open>fl x\<close> is the double nearest to \<open>x\<close>, a tie going to the even significand: the
  value of a literal of the source and of a product of two doubles. The exponent is not
  bounded here: a result beyond the largest double (an IEEE infinity) or below the
  smallest normal double is outside this model.
\<close>

definition round_even :: "real \<Rightarrow> int" where
  "round_even s =
     (let f = \<lfloor>s\<rfloor>; d = s - of_int f
      in if d < 1 / 2 then f else if 1 / 2 < d then f + 1 else if even f then f else f + 1)"

definition fl :: "real \<Rightarrow> real" where
  "fl x =
     (if x = 0 then 0
      else (let e = \<lfloor>log 2 \<bar>x\<bar>\<rfloor> - 52
            in of_int (round_even (x / 2 powr of_int e)) * 2 powr of_int e))"


text \<open>
  \<^verbatim>\<open>make_decision\<close> once more, lines 47-70, with the arithmetic of lines 67 and 68 in
  double precision: the literals 0.02, 1.02 and 0.98 are the nearest doubles and each
  product is rounded. Comparing two doubles is exact.
\<close>

definition make_decision_double :: "frame \<Rightarrow> py_error + recommendation" where
  "make_decision_double data =
     (if len data < 200 then Inr hold
      else bind_err (iloc_last data) (\<lambda>latest.
        bind_err (getitems latest required) (\<lambda>sel.
          if list_ex isnull sel then Inr hold
          else (case read_indicators latest of
                  Inl e \<Rightarrow> Inr hold
                | Inr (sma_50, sma_200, volatility, close, support) \<Rightarrow>
                    if sma_50 > sma_200 \<and> volatility < fl 0.02 \<and> close > support
                    then Inr (''BUY'', Some close, Some (fl (close * fl 1.02)),
                              Some (fl (close * fl 0.98)), Some 2)
                    else Inr hold))))"


section \<open>The indicator pipeline (lines 42-45 and 75-79)\<close>

text \<open>\<^verbatim>\<open>df[c]\<close> reads a column (KeyError when absent); \<^verbatim>\<open>df[c] = s\<close> replaces the column
  of that name or appends a new one, and touches no other column and no row.\<close>

definition getcol :: "frame \<Rightarrow> string \<Rightarrow> py_error + series" where
  "getcol df c = (case map_of (columns df) c of None \<Rightarrow> Inl KeyError | Some s \<Rightarrow> Inr s)"

definition setcol :: "frame \<Rightarrow> string \<Rightarrow> series \<Rightarrow> frame" where
  "setcol df c s = df\<lparr>columns := AList.update c s (columns df)\<rparr>"

text \<open>
  \<^verbatim>\<open>s.rolling(window=w)\<close>: the window of row \<open>t\<close> holds the rows \<open>t - w + 1\<close> to \<open>t\<close>, cut
  at the first row. \<^verbatim>\<open>min_periods\<close> defaults to \<open>w\<close>: the result is missing unless the
  window holds \<open>w\<close> values that are not missing. A column with non-numeric cells cannot be
  aggregated.
\<close>

definition window :: "nat \<Rightarrow> series \<Rightarrow> nat \<Rightarrow> cell list" where
  "window w s t = map s [t + 1 - w ..< t + 1]"

fun observations :: "cell list \<Rightarrow> real list" where
  "observations [] = []"
| "observations (Num r # cs) = r # observations cs"
| "observations (Null # cs) = observations cs"
| "observations (NonNumeric # cs) = observations cs"

definition numeric :: "nat \<Rightarrow> series \<Rightarrow> bool" where
  "numeric n s = (\<not> list_ex (\<lambda>t. s t = NonNumeric) [0..<n])"

definition rolling_at :: "nat \<Rightarrow> (real list \<Rightarrow> cell) \<Rightarrow> series \<Rightarrow> series" where
  "rolling_at w agg s t =
     (let obs = observations (window w s t)
      in if length obs < w then Null else agg obs)"

definition rolling :: "nat \<Rightarrow> nat \<Rightarrow> (real list \<Rightarrow> cell) \<Rightarrow> series \<Rightarrow> py_error + series" where
  "rolling n w agg s = (if numeric n s then Inr (rolling_at w agg s) else Inl DataError)"

text \<open>The aggregates: \<^verbatim>\<open>.mean()\<close>, \<^verbatim>\<open>.std()\<close> (\<^verbatim>\<open>ddof=1\<close>, the divisor is one less than
  the number of observations), \<^verbatim>\<open>.max()\<close>, \<^verbatim>\<open>.min()\<close>.\<close>

definition mean :: "real list \<Rightarrow> real" where
  "mean xs = sum_list xs / real (length xs)"

definition agg_mean :: "real list \<Rightarrow> cell" where
  "agg_mean xs = (if xs = [] then Null else Num (mean xs))"

definition agg_std :: "real list \<Rightarrow> cell" where
  "agg_std xs =
     (if length xs < 2 then Null
      else Num (sqrt (sum_list (map (\<lambda>x. (x - mean xs)\<^sup>2) xs) / real (length xs - 1))))"

definition agg_max :: "real list \<Rightarrow> cell" where
  "agg_max xs = (case xs of [] \<Rightarrow> Null | x # ys \<Rightarrow> Num (fold max ys x))"

definition agg_min :: "real list \<Rightarrow> cell" where
  "agg_min xs = (case xs of [] \<Rightarrow> Null | x # ys \<Rightarrow> Num (fold min ys x))"

text \<open>
  \<^verbatim>\<open>s.pct_change()\<close>: the relative change from the previous row, missing on the first row
  and where one of the two closes is missing. A division by a zero close is an IEEE
  infinity or NaN; the model, which has no infinities, gives a missing value.
\<close>

definition pct_change_at :: "series \<Rightarrow> series" where
  "pct_change_at s t =
     (if t = 0 then Null
      else (case s (t - 1) of
              Num p \<Rightarrow> (case s t of
                          Num c \<Rightarrow> if p = 0 then Null else Num (c / p - 1)
                        | Null \<Rightarrow> Null
                        | NonNumeric \<Rightarrow> Null)
            | Null \<Rightarrow> Null
            | NonNumeric \<Rightarrow> Null))"

definition pct_change :: "nat \<Rightarrow> series \<Rightarrow> py_error + series" where
  "pct_change n s = (if numeric n s then Inr (pct_change_at s) else Inl TypeError)"

text \<open>\<^verbatim>\<open>key_levels\<close>, lines 42-45.\<close>

definition key_levels :: "frame \<Rightarrow> py_error + (series \<times> series)" where
  "key_levels data =
     bind_err (bind_err (getcol data ''High'') (rolling (nrows data) 30 agg_max)) (\<lambda>high.
     bind_err (bind_err (getcol data ''Low'') (rolling (nrows data) 30 agg_min)) (\<lambda>low.
       Inr (high, low)))"

text \<open>Lines 75 to 79, one definition per assignment.\<close>

definition assign_sma_50 :: "frame \<Rightarrow> py_error + frame" where
  "assign_sma_50 df =
     bind_err (bind_err (getcol df ''Close'') (rolling (nrows df) 50 agg_mean))
       (\<lambda>s. Inr (setcol df ''SMA_50'' s))"

definition assign_sma_200 :: "frame \<Rightarrow> py_error + frame" where
  "assign_sma_200 df =
     bind_err (bind_err (getcol df ''Close'') (rolling (nrows df) 200 agg_mean))
       (\<lambda>s. Inr (setcol df ''SMA_200'' s))"

definition assign_daily_return :: "frame \<Rightarrow> py_error + frame" where
  "assign_daily_return df =
     bind_err (bind_err (getcol df ''Close'') (pct_change (nrows df)))
       (\<lambda>s. Inr (setcol df ''Daily Return'' s))"

definition assign_volatility :: "frame \<Rightarrow> py_error + frame" where
  "assign_volatility df =
     bind_err (bind_err (getcol df ''Daily Return'') (rolling (nrows df) 30 agg_std))
       (\<lambda>s. Inr (setcol df ''Volatility'' s))"

definition assign_key_levels :: "frame \<Rightarrow> py_error + frame" where
  "assign_key_levels df =
     bind_err (key_levels df)
       (\<lambda>(high, low). Inr (setcol (setcol df ''Resistance'' high) ''Support'' low))"

definition indicators :: "frame \<Rightarrow> py_error + frame" where
  "indicators df =
     bind_err (assign_sma_50 df) (\<lambda>df.
     bind_err (assign_sma_200 df) (\<lambda>df.
     bind_err (assign_daily_return df) (\<lambda>df.
     bind_err (assign_volatility df) assign_key_levels)))"

section \<open>Loading the history (\<^verbatim>\<open>load_data\<close>, lines 32-40) and the script (lines 72-143)\<close>

text \<open>\<^verbatim>\<open>df.empty\<close>: no rows or no columns.\<close>

definition empty :: "frame \<Rightarrow> bool" where
  "empty df = (nrows df = 0 \<or> columns df = [])"

text \<open>
  \<^verbatim>\<open>df.reset_index()\<close> moves the index into a first column under the index's name
  (\<^verbatim>\<open>index\<close>, or \<^verbatim>\<open>level_0\<close> when that is taken, for a nameless one; ValueError when
  the label is taken) and numbers the rows;
  \<^verbatim>\<open>pd.to_datetime\<close> keeps dates and missing values and rejects what is not a date;
  \<^verbatim>\<open>df.set_index(c)\<close> makes column \<open>c\<close> the index again.
\<close>

definition reset_index :: "frame \<Rightarrow> py_error + frame" where
  "reset_index df =
     (let label = (case index_name df of
                     None \<Rightarrow> if map_of (columns df) ''index'' = None then ''index'' else ''level_0''
                   | Some l \<Rightarrow> l)
      in if map_of (columns df) label \<noteq> None then Inl (ValueError ''cannot insert, already exists'')
         else Inr (df\<lparr>index_name := None, index := (\<lambda>t. Num (real t)),
                      columns := (label, index df) # columns df\<rparr>))"

definition to_datetime :: "nat \<Rightarrow> series \<Rightarrow> py_error + series" where
  "to_datetime n s = (if numeric n s then Inr s else Inl (ValueError ''unknown datetime format''))"

definition set_index :: "frame \<Rightarrow> string \<Rightarrow> py_error + frame" where
  "set_index df c =
     bind_err (getcol df c) (\<lambda>s.
       Inr (df\<lparr>index_name := Some c, index := s, columns := AList.delete c (columns df)\<rparr>))"

text \<open>The price-history provider \<^verbatim>\<open>yf.download\<close> is a parameter: it answers with a table
  or fails.\<close>

definition load_data :: "(string \<Rightarrow> string \<Rightarrow> py_error + frame) \<Rightarrow> string \<Rightarrow> string \<Rightarrow> py_error + frame" where
  "load_data download symbol period =
     bind_err (download symbol period) (\<lambda>df.
       if empty df then Inl (ValueError (''No data found for '' @ symbol @ ''.''))
       else bind_err (reset_index df) (\<lambda>df.
            bind_err (bind_err (getcol df ''Date'') (to_datetime (nrows df))) (\<lambda>d.
              set_index (setcol df ''Date'' d) ''Date'')))"

text \<open>
  What the page ends with: the prompt to choose a symbol (line 143), the error message of
  line 141, or the decision panel of lines 130-139 fed by \<^verbatim>\<open>make_decision\<close>. The charts
  drawn in between read the table and do not change it.
\<close>

datatype outcome = Prompt | Failed py_error | Decision recommendation

definition script :: "(string \<Rightarrow> string \<Rightarrow> py_error + frame) \<Rightarrow> string option \<Rightarrow> outcome" where
  "script download final_symbol =
     (case final_symbol of
        None \<Rightarrow> Prompt
      | Some symbol \<Rightarrow>
          (case bind_err (load_data download symbol ''1y'') (\<lambda>df.
                  bind_err (indicators df) make_decision) of
             Inl e \<Rightarrow> Failed e
           | Inr r \<Rightarrow> Decision r))"

section \<open>Example tables\<close>

text \<open>A table of \<open>n\<close> rows whose columns are constant, and a price history of \<open>n\<close> bars
  with the same open, high, low and close on every bar.\<close>

definition const_table :: "nat \<Rightarrow> (string \<times> cell) list \<Rightarrow> frame" where
  "const_table n cells =
     \<lparr>nrows = n, index_name = Some ''Date'', index = (\<lambda>t. Num (real t)),
      columns = map (\<lambda>(c, v). (c, \<lambda>t. v)) cells\<rparr>"

definition scenario_row :: "(string \<times> cell) list" where
  "scenario_row = [(''SMA_50'', Num 110), (''SMA_200'', Num 100), (''Volatility'', Num 0.01),
                   (''Close'', Num 105), (''Support'', Num 100)]"

definition flat_history :: "nat \<Rightarrow> frame" where
  "flat_history n =
     const_table n [(''Open'', Num 100), (''High'', Num 100), (''Low'', Num 100),
                    (''Close'', Num 100), (''Volume'', Num 1000)]"

text \<open>A table of 250 rows of doubles whose final row is a BUY at the close nearest to
  1.97.\<close>

definition rounding_example :: frame where
  "rounding_example =
     const_table 250 [(''SMA_50'', Num 110), (''SMA_200'', Num 100), (''Volatility'', Num (1 / 128)),
                      (''Close'', Num (8872091265919877 / 2 ^ 52)), (''Support'', Num 1)]"

text \<open>The same history, but the provider left the close of the first bar missing.\<close>

definition late_history :: "nat \<Rightarrow> frame" where
  "late_history n = setcol (flat_history n) ''Close'' (\<lambda>t. if t = 0 then Null else Num 100)"

text \<open>A price history whose bars open, peak, bottom and close at the listed prices.\<close>

definition cells :: "real list \<Rightarrow> series" where
  "cells xs t = (if t < length xs then Num (xs ! t) else Null)"

definition bars :: "real list \<Rightarrow> frame" where
  "bars xs =
     \<lparr>nrows = length xs, index_name = Some ''Date'', index = (\<lambda>t. Num (real t)),
      columns = [(''Open'', cells xs), (''High'', cells xs), (''Low'', cells xs),
                 (''Close'', cells xs), (''Volume'', \<lambda>t. Num 1000)]\<rparr>"

section \<open>Predicates on tables\<close>

text \<open>The table carries a column under each of the labels.\<close>

definition has_columns :: "frame \<Rightarrow> string list \<Rightarrow> bool" where
  "has_columns data cs = list_all (\<lambda>c. map_of (columns data) c \<noteq> None) cs"

text \<open>
  The table carries a column under each of the labels, and inside the table none of
  these columns holds a cell that is not a number or a missing value. Every price
  history (open, high, low, close and volume are numbers on every bar) is such a table
  for the labels Close, High and Low, the columns the pipeline reads.
\<close>

definition numeric_columns :: "frame \<Rightarrow> string list \<Rightarrow> bool" where
  "numeric_columns data cs =
     list_all (\<lambda>c. case map_of (columns data) c of
                      None \<Rightarrow> False
                    | Some s \<Rightarrow> numeric (nrows data) s) cs"

section \<open>Properties of the decision rule\<close>

lemma bind_err_simps [simp]:
  "bind_err (Inl e) f = Inl e" "bind_err (Inr x) f = f x"
  by (simp_all add: bind_err_def)

lemma iloc_last_lookup:
  "iloc_last data = Inr latest \<Longrightarrow>
   map_of latest c = map_option (\<lambda>s. s (nrows data - 1)) (map_of (columns data) c)"
  by (auto simp: iloc_last_def map_of_map split: if_splits)

lemma getitems_required:
  assumes "map_of latest ''SMA_50'' = Some a" "map_of latest ''SMA_200'' = Some b"
    "map_of latest ''Volatility'' = Some c" "map_of latest ''Close'' = Some d"
    "map_of latest ''Support'' = Some e"
  shows "getitems latest required = Inr [a, b, c, d, e]"
  using assms by (simp add: required_def getitem_def)

text \<open>
  Claim C2. A table with fewer than 200 rows yields HOLD with the four secondary fields
  null, whatever its cells hold; a table of 199 rows does.
\<close>

theorem short_history_holds:
  "nrows data < 200 \<Longrightarrow> make_decision data = Inr (''HOLD'', None, None, None, None)"
  by (simp add: make_decision_def len_def hold_def)

theorem short_history_holds_witness:
  "nrows (const_table 199 scenario_row) < 200
   \<and> make_decision (const_table 199 scenario_row) = Inr (''HOLD'', None, None, None, None)"
  using short_history_holds [of "const_table 199 scenario_row"]
  by (simp add: const_table_def)

text \<open>
  Claim C1. On a table of at least 200 rows whose final row holds numbers under SMA_50,
  SMA_200, Volatility, Close and Support, the decision is BUY exactly when
  SMA_50 > SMA_200, Volatility < 0.02 and Close > Support; a BUY carries the close as
  entry price, the close times 1.02 as take profit, the close times 0.98 as stop loss and
  the ratio 2; otherwise the decision is HOLD with four null fields. The instance below
  is the 250-bar scenario with SMA_50 = 110, SMA_200 = 100, Volatility = 0.01,
  Close = 105, Support = 100.
\<close>

theorem decision_rule:
  assumes "200 \<le> nrows data" and "iloc_last data = Inr latest"
    and "map_of latest ''SMA_50'' = Some (Num sma_50)"
    and "map_of latest ''SMA_200'' = Some (Num sma_200)"
    and "map_of latest ''Volatility'' = Some (Num volatility)"
    and "map_of latest ''Close'' = Some (Num close)"
    and "map_of latest ''Support'' = Some (Num support)"
  shows "make_decision data =
           Inr (if sma_50 > sma_200 \<and> volatility < 0.02 \<and> close > support
                then (''BUY'', Some close, Some (close * 1.02), Some (close * 0.98), Some 2)
                else (''HOLD'', None, None, None, None))"
  using assms
  by (simp add: make_decision_def len_def hold_def getitems_required read_indicators_def getitem_def)

theorem decision_rule_witness:
  "200 \<le> nrows (const_table 250 scenario_row)
   \<and> iloc_last (const_table 250 scenario_row) = Inr scenario_row
   \<and> make_decision (const_table 250 scenario_row) = Inr (''BUY'', Some 105, Some 107.10, Some 102.90, Some 2)"
  using decision_rule [of "const_table 250 scenario_row" scenario_row 110 100 "0.01" 105 100]
  by (simp add: const_table_def scenario_row_def iloc_last_def)

lemma getitems_present:
  "\<forall>c\<in>set cs. map_of latest c \<noteq> None \<Longrightarrow>
   getitems latest cs = Inr (map (\<lambda>c. the (map_of latest c)) cs)"
  by (induction cs) (auto simp: getitem_def)

lemma getitems_error: "getitems latest cs = Inl e \<Longrightarrow> e = KeyError"
  by (induction cs) (auto simp: getitem_def bind_err_def split: option.splits sum.splits)

lemma getitems_absent:
  "c \<in> set cs \<Longrightarrow> map_of latest c = None \<Longrightarrow> getitems latest cs = Inl KeyError"
  by (induction cs) (auto simp: getitem_def bind_err_def dest: getitems_error split: option.splits sum.splits)

lemma isnull_iff: "isnull x \<longleftrightarrow> x = Null"
  by (cases x) simp_all

lemma has_columns_latest:
  assumes "has_columns data cs" and "iloc_last data = Inr latest"
  shows "\<forall>c\<in>set cs. map_of latest c \<noteq> None"
  using assms by (auto simp: has_columns_def list_all_iff iloc_last_lookup)

lemma make_decision_long:
  assumes "200 \<le> nrows data" and "iloc_last data = Inr latest"
    and "\<forall>c\<in>set required. map_of latest c \<noteq> None"
  shows "make_decision data =
     (if \<exists>c\<in>set required. map_of latest c = Some Null then Inr hold
      else (case read_indicators latest of
                  Inl e \<Rightarrow> Inr hold
                | Inr (sma_50, sma_200, volatility, close, support) \<Rightarrow>
                    if sma_50 > sma_200 \<and> volatility < 0.02 \<and> close > support
                    then Inr (''BUY'', Some close, Some (close * 1.02), Some (close * 0.98), Some 2)
                    else Inr hold))"
proof -
  have nulls: "list_ex isnull (map (\<lambda>c. the (map_of latest c)) required)
      \<longleftrightarrow> (\<exists>c\<in>set required. map_of latest c = Some Null)"
  proof -
    have "Null = the (map_of latest c) \<longleftrightarrow> map_of latest c = Some Null"
      if "c \<in> set required" for c
      using assms(3) that by (cases "map_of latest c") auto
    then have "(\<exists>c\<in>set required. Null = the (map_of latest c))
        \<longleftrightarrow> (\<exists>c\<in>set required. map_of latest c = Some Null)"
      by blast
    then show ?thesis by (simp add: list_ex_iff isnull_iff Bex_def image_iff)
  
  qed
  show ?thesis
    using assms(1,2) nulls
    by (simp add: make_decision_def len_def getitems_present [OF assms(3)])
qed

lemma iloc_last_Inr: "0 < nrows data \<Longrightarrow> \<exists>latest. iloc_last data = Inr latest"
  by (simp add: iloc_last_def)

text \<open>
  Claim C3. On a table of at least 200 rows that carries the five required columns, a
  missing value under one of them on the final row gives HOLD with four null fields:
  the function returns, it does not raise.
\<close>

theorem missing_indicator_holds:
  assumes "200 \<le> nrows data" and "has_columns data required"
    and "iloc_last data = Inr latest"
    and "\<exists>c\<in>set required. map_of latest c = Some Null"
  shows "make_decision data = Inr (''HOLD'', None, None, None, None)"
  using make_decision_long [OF assms(1,3) has_columns_latest [OF assms(2,3)]] assms(4)
  by (simp add: hold_def)

theorem missing_indicator_holds_witness:
  "200 \<le> nrows (const_table 250 (AList.update ''Volatility'' Null scenario_row))
   \<and> has_columns (const_table 250 (AList.update ''Volatility'' Null scenario_row)) required
   \<and> iloc_last (const_table 250 (AList.update ''Volatility'' Null scenario_row))
       = Inr (AList.update ''Volatility'' Null scenario_row)
   \<and> make_decision (const_table 250 (AList.update ''Volatility'' Null scenario_row))
       = Inr (''HOLD'', None, None, None, None)"
  using missing_indicator_holds [of "const_table 250 (AList.update ''Volatility'' Null scenario_row)"
      "AList.update ''Volatility'' Null scenario_row"]
  by (simp add: const_table_def scenario_row_def iloc_last_def has_columns_def required_def)

lemma make_decision_cases:
  assumes "make_decision data = Inr r"
  shows "r = hold \<or> (\<exists>close. r = (''BUY'', Some close, Some (close * 1.02), Some (close * 0.98), Some 2))"
  using assms
  by (auto simp: make_decision_def bind_err_def split: if_splits sum.splits prod.splits)

text \<open>
  In exact arithmetic the take profit of a BUY lies as far above the entry price as the
  stop loss lies below it, 0.02 times the entry price, and the ratio returned is the
  constant 2.
\<close>

lemma buy_levels_exact:
  assumes "make_decision data = Inr (action, entry, tp, sl, rr)" and "action = ''BUY''"
  shows "\<exists>e t s. entry = Some e \<and> tp = Some t \<and> sl = Some s
           \<and> t - e = e - s \<and> t - e = 0.02 * e \<and> rr = Some 2"
proof -
  from make_decision_cases [OF assms(1)] assms(2)
  obtain close where "entry = Some close" "tp = Some (close * 1.02)"
    "sl = Some (close * 0.98)" "rr = Some 2"
    by (auto simp: hold_def)
  moreover have "close * 1.02 - close = close - close * 0.98"
    and "close * 1.02 - close = 0.02 * close"
    by (simp_all add: algebra_simps)
  ultimately show ?thesis by blast
qed


text \<open>Rounding to the nearest double moves a number by at most \<open>1 / 2 ^ 53\<close> of itself.\<close>

lemma round_even_error: "\<bar>of_int (round_even s) - s\<bar> \<le> 1 / 2"
  unfolding round_even_def Let_def by (auto simp: abs_if) linarith+

lemma fl_error: "\<bar>fl x - x\<bar> \<le> \<bar>x\<bar> / 2 ^ 53"
proof (cases "x = 0")
  case True
  then show ?thesis by (simp add: fl_def)
next
  case False
  define k where "k = \<lfloor>log 2 \<bar>x\<bar>\<rfloor>"
  define p :: real where "p = 2 powr of_int (k - 52)"
  have p: "0 < p" by (simp add: p_def)
  have "of_int k \<le> log 2 \<bar>x\<bar>" by (simp add: k_def)
  then have "2 powr of_int k \<le> \<bar>x\<bar>" using False by (simp add: powr_le_iff)
  moreover have "2 powr of_int k = p * 2 ^ 52"
    by (simp add: p_def powr_diff powr_realpow [symmetric])
  ultimately have lo: "p * 2 ^ 52 \<le> \<bar>x\<bar>" by simp
  have "fl x - x = (of_int (round_even (x / p)) - x / p) * p"
    using False p by (simp add: fl_def k_def p_def Let_def algebra_simps)
  then have "\<bar>fl x - x\<bar> = \<bar>of_int (round_even (x / p)) - x / p\<bar> * p"
    using p by (simp add: abs_mult)
  also have "\<dots> \<le> 1 / 2 * p"
    using round_even_error [of "x / p"] p by (intro mult_right_mono) auto
  also have "\<dots> = p * 2 ^ 52 / 2 ^ 53" by simp
  also have "\<dots> \<le> \<bar>x\<bar> / 2 ^ 53" using lo by (intro divide_right_mono) auto
  finally show ?thesis .
qed

lemma fl_eval:
  assumes "2 powr of_int k \<le> \<bar>x::real\<bar>" and "\<bar>x\<bar> < 2 powr of_int (k + 1)"
  shows "fl x = of_int (round_even (x / 2 powr of_int (k - 52))) * 2 powr of_int (k - 52)"
proof -
  have nz: "x \<noteq> 0" using assms(1) by (auto simp: not_le [symmetric] dest: order_trans)
  have "\<lfloor>log 2 \<bar>x\<bar>\<rfloor> = k"
  proof (rule floor_unique)
    show "of_int k \<le> log 2 \<bar>x\<bar>" using assms(1) nz by (simp add: powr_le_iff)
    show "log 2 \<bar>x\<bar> < of_int k + 1" using assms(2) nz by (simp add: less_powr_iff add.commute)
  qed
  with nz show ?thesis by (simp add: fl_def Let_def)
qed

lemma fl_consts:
  "fl 0.02 = 5764607523034235 / 2 ^ 58"
  "fl 1.02 = 2296835809958953 / 2 ^ 51"
  "fl 0.98 = 2206763817411543 / 2 ^ 51"
proof -
  show "fl 0.02 = 5764607523034235 / 2 ^ 58"
    by (subst fl_eval [of "-6"]) (simp_all add: round_even_def powr_neg_numeral)
  show "fl 1.02 = 2296835809958953 / 2 ^ 51"
    by (subst fl_eval [of 0]) (simp_all add: round_even_def powr_neg_numeral)
  show "fl 0.98 = 2206763817411543 / 2 ^ 51"
    by (subst fl_eval [of "-1"]) (simp_all add: round_even_def powr_neg_numeral)
qed

lemma make_decision_double_cases:
  assumes "make_decision_double data = Inr r"
  shows "r = hold \<or> (\<exists>close. r = (''BUY'', Some close, Some (fl (close * fl 1.02)),
                                    Some (fl (close * fl 0.98)), Some 2))"
  using assms
  by (auto simp: make_decision_double_def bind_err_def split: if_splits sum.splits prod.splits)

lemma fl_product_error:
  assumes "\<bar>fl c - c\<bar> \<le> \<bar>c\<bar> / 2 ^ 53" and "\<bar>c\<bar> \<le> 3 / 2"
  shows "\<bar>fl (e * fl c) - e * c\<bar> \<le> \<bar>e\<bar> / 2 ^ 51"
proof -
  have c1: "\<bar>fl c - c\<bar> \<le> 3 / 2 / 2 ^ 53"
    using assms by (auto intro: order_trans divide_right_mono)
  moreover have "3 / 2 / 2 ^ 53 \<le> (1 / 2 :: real)" by simp
  ultimately have c2: "\<bar>fl c\<bar> \<le> 2" using assms(2) by linarith
  have "\<bar>fl (e * fl c) - e * fl c\<bar> \<le> \<bar>e * fl c\<bar> / 2 ^ 53" by (rule fl_error)
  also have "\<dots> \<le> \<bar>e\<bar> * 2 / 2 ^ 53"
    using c2 by (intro divide_right_mono) (auto simp: abs_mult intro: mult_left_mono)
  finally have a: "\<bar>fl (e * fl c) - e * fl c\<bar> \<le> \<bar>e\<bar> * 2 / 2 ^ 53" .
  have "\<bar>e * fl c - e * c\<bar> = \<bar>e\<bar> * \<bar>fl c - c\<bar>"
    by (simp add: abs_mult [symmetric] algebra_simps)
  also have "\<dots> \<le> \<bar>e\<bar> * (3 / 2 / 2 ^ 53)"
    using c1 by (intro mult_left_mono) auto
  finally have b: "\<bar>e * fl c - e * c\<bar> \<le> \<bar>e\<bar> * (3 / 2 / 2 ^ 53)" .
  have "\<bar>fl (e * fl c) - e * c\<bar> \<le> \<bar>fl (e * fl c) - e * fl c\<bar> + \<bar>e * fl c - e * c\<bar>"
    by simp
  also have "\<dots> \<le> \<bar>e\<bar> * 2 / 2 ^ 53 + \<bar>e\<bar> * (3 / 2 / 2 ^ 53)"
    using a b by simp
  also have "\<dots> \<le> \<bar>e\<bar> / 2 ^ 51" by simp
  finally show ?thesis .
qed

lemma rounding_example_decision:
  "make_decision_double rounding_example
     = Inr (''BUY'', Some (8872091265919877 / 2 ^ 52), Some (4524766545619137 / 2 ^ 51),
            Some (8694649440601479 / 2 ^ 52), Some 2)"
proof -
  have tp: "fl (8872091265919877 / 2 ^ 52 * fl 1.02) = 4524766545619137 / 2 ^ 51"
    unfolding fl_consts
    by (subst fl_eval [of 1]) (simp_all add: round_even_def powr_neg_numeral)
  have sl: "fl (8872091265919877 / 2 ^ 52 * fl 0.98) = 8694649440601479 / 2 ^ 52"
    unfolding fl_consts
    by (subst fl_eval [of 0]) (simp_all add: round_even_def powr_neg_numeral)
  have vol: "(1 / 128 :: real) < fl 0.02" unfolding fl_consts by simp
  show ?thesis
    using vol tp sl
    by (simp add: make_decision_double_def rounding_example_def len_def const_table_def
        iloc_last_def required_def getitem_def read_indicators_def)
qed


text \<open>
  Claim C8, amended. In every BUY the ratio returned is the constant 2, and take profit
  and stop loss are the products of the entry price with 1.02 and with 0.98 as double
  precision computes them. For an entry price between \<open>1 / 2 ^ 1000\<close> and \<open>2 ^ 1000\<close>, the
  distance from the entry price up to the take profit and the distance down to the stop
  loss are each within the entry price times \<open>1 / 2 ^ 51\<close> of 0.02 times the entry price.
  They are not equal to it, nor to each other, on every price: the example after the
  theorem is the close 1.97.
\<close>

theorem buy_levels_rounded:
  assumes "make_decision_double data = Inr (action, entry, tp, sl, rr)" and "action = ''BUY''"
  shows "\<exists>e t s. entry = Some e \<and> tp = Some t \<and> sl = Some s \<and> rr = Some 2
           \<and> (1 / 2 ^ 1000 \<le> \<bar>e\<bar> \<and> \<bar>e\<bar> \<le> 2 ^ 1000 \<longrightarrow>
                t = fl (e * fl 1.02) \<and> s = fl (e * fl 0.98)
                \<and> \<bar>(t - e) - 0.02 * e\<bar> \<le> \<bar>e\<bar> / 2 ^ 51
                \<and> \<bar>(e - s) - 0.02 * e\<bar> \<le> \<bar>e\<bar> / 2 ^ 51)"
proof -
  from make_decision_double_cases [OF assms(1)] assms(2)
  obtain close where c: "entry = Some close" "tp = Some (fl (close * fl 1.02))"
    "sl = Some (fl (close * fl 0.98))" "rr = Some 2"
    by (auto simp: hold_def)
  have eq_up: "fl (close * fl 1.02) - close - 0.02 * close = fl (close * fl 1.02) - close * 1.02"
    by (simp add: algebra_simps)
  have up: "\<bar>(fl (close * fl 1.02) - close) - 0.02 * close\<bar> \<le> \<bar>close\<bar> / 2 ^ 51"
    unfolding eq_up by (rule fl_product_error [OF fl_error]) simp
  have eq_down: "close - fl (close * fl 0.98) - 0.02 * close = - (fl (close * fl 0.98) - close * 0.98)"
    by (simp add: algebra_simps)
  have down: "\<bar>(close - fl (close * fl 0.98)) - 0.02 * close\<bar> \<le> \<bar>close\<bar> / 2 ^ 51"
    unfolding eq_down abs_minus_cancel by (rule fl_product_error [OF fl_error]) simp
  from c up down show ?thesis by blast
qed

theorem buy_levels_rounded_witness:
  "make_decision_double rounding_example
     = Inr (''BUY'', Some (8872091265919877 / 2 ^ 52), Some (4524766545619137 / 2 ^ 51),
            Some (8694649440601479 / 2 ^ 52), Some 2)
   \<and> 1 / 2 ^ 1000 \<le> \<bar>8872091265919877 / 2 ^ 52 :: real\<bar>
   \<and> \<bar>8872091265919877 / 2 ^ 52 :: real\<bar> \<le> 2 ^ 1000
   \<and> \<bar>(4524766545619137 / 2 ^ 51 - 8872091265919877 / 2 ^ 52) - 0.02 * (8872091265919877 / 2 ^ 52)\<bar>
       \<le> \<bar>8872091265919877 / 2 ^ 52 :: real\<bar> / 2 ^ 51
   \<and> \<bar>(8872091265919877 / 2 ^ 52 - 8694649440601479 / 2 ^ 52) - 0.02 * (8872091265919877 / 2 ^ 52)\<bar>
       \<le> \<bar>8872091265919877 / 2 ^ 52 :: real\<bar> / 2 ^ 51"
proof -
  have r: "1 / 2 ^ 1000 \<le> \<bar>8872091265919877 / 2 ^ 52 :: real\<bar>"
    "\<bar>8872091265919877 / 2 ^ 52 :: real\<bar> \<le> 2 ^ 1000"
    by simp_all
  from buy_levels_rounded [OF rounding_example_decision] r rounding_example_decision
  show ?thesis by auto
qed

theorem buy_levels_counterexample:
  "make_decision_double rounding_example
     = Inr (''BUY'', Some (8872091265919877 / 2 ^ 52), Some (4524766545619137 / 2 ^ 51),
            Some (8694649440601479 / 2 ^ 52), Some 2)
   \<and> (4524766545619137 / 2 ^ 51 - 8872091265919877 / 2 ^ 52 :: real)
       \<noteq> 8872091265919877 / 2 ^ 52 - 8694649440601479 / 2 ^ 52
   \<and> (4524766545619137 / 2 ^ 51 - 8872091265919877 / 2 ^ 52 :: real)
       \<noteq> 0.02 * (8872091265919877 / 2 ^ 52)"
  using rounding_example_decision by simp


text \<open>
  Claim C10, amended. On a table that has fewer than 200 rows or carries the five
  required columns, whatever its cells hold (numbers, missing values, values that are
  not numbers), the function returns, and what it returns is either HOLD with four null
  fields or BUY with the four fields present. A table of 200 rows or more that lacks a
  required column is outside this statement: line 54 raises KeyError on it, as the
  example after the theorem shows.
\<close>

theorem decision_shape:
  assumes "nrows data < 200 \<or> has_columns data required"
  shows "make_decision data = Inr (''HOLD'', None, None, None, None)
       \<or> (\<exists>close. make_decision data
             = Inr (''BUY'', Some close, Some (close * 1.02), Some (close * 0.98), Some 2))"
proof (cases "nrows data < 200")
  case True
  then show ?thesis by (simp add: make_decision_def len_def hold_def)
next
  case False
  with assms have hc: "has_columns data required" and long: "200 \<le> nrows data" by auto
  from long obtain latest where l: "iloc_last data = Inr latest"
    using iloc_last_Inr [of data] by auto
  show ?thesis
    unfolding make_decision_long [OF long l has_columns_latest [OF hc l]]
    by (auto simp: hold_def split: sum.splits prod.splits)
qed

theorem decision_shape_witness:
  "(nrows (const_table 250 (AList.update ''Close'' NonNumeric scenario_row)) < 200
     \<or> has_columns (const_table 250 (AList.update ''Close'' NonNumeric scenario_row)) required)
   \<and> make_decision (const_table 250 (AList.update ''Close'' NonNumeric scenario_row))
       = Inr (''HOLD'', None, None, None, None)"
proof -
  have "make_decision (const_table 250 (AList.update ''Close'' NonNumeric scenario_row))
       \<noteq> Inr (''BUY'', Some close, Some (close * 1.02), Some (close * 0.98), Some 2)" for close
    by (simp add: make_decision_def len_def const_table_def scenario_row_def iloc_last_def
        required_def getitem_def read_indicators_def hold_def)
  then show ?thesis
    using decision_shape [of "const_table 250 (AList.update ''Close'' NonNumeric scenario_row)"]
    by (auto simp: const_table_def scenario_row_def has_columns_def required_def)
qed

theorem decision_raises_counterexample:
  "make_decision (const_table 250 [(''SMA_50'', Num 110), (''SMA_200'', Num 100),
      (''Volatility'', Num 0.01), (''Close'', Num 105)]) = Inl KeyError"
  by (simp add: make_decision_def len_def const_table_def iloc_last_def required_def getitem_def)

section \<open>Properties of the indicator pipeline\<close>

lemma setcol_simps [simp]:
  "nrows (setcol df c s) = nrows df"
  "index (setcol df c s) = index df"
  "index_name (setcol df c s) = index_name df"
  "map_of (columns (setcol df c s)) = (map_of (columns df))(c \<mapsto> s)"
  by (simp_all add: setcol_def update_conv')

lemma getcol_setcol [simp]:
  "getcol (setcol df c s) c' = (if c' = c then Inr s else getcol df c')"
  by (simp add: getcol_def)

lemma numeric_iff: "numeric n s \<longleftrightarrow> (\<forall>t<n. s t \<noteq> NonNumeric)"
  by (auto simp: numeric_def list_ex_iff)

lemma pct_change_at_numeric [simp]: "numeric n (pct_change_at s)"
  by (auto simp: numeric_iff pct_change_at_def split: cell.splits)

lemma numeric_columns_iff:
  "numeric_columns df cs \<longleftrightarrow>
     (\<forall>c\<in>set cs. \<exists>s. getcol df c = Inr s \<and> numeric (nrows df) s)"
  by (auto simp: numeric_columns_def list_all_iff getcol_def split: option.splits)

lemma indicators_total:
  assumes "getcol df ''Close'' = Inr close" and "numeric (nrows df) close"
    and "getcol df ''High'' = Inr high" and "numeric (nrows df) high"
    and "getcol df ''Low'' = Inr low" and "numeric (nrows df) low"
  shows "indicators df =
     Inr (setcol (setcol (setcol (setcol (setcol (setcol df
        ''SMA_50'' (rolling_at 50 agg_mean close))
        ''SMA_200'' (rolling_at 200 agg_mean close))
        ''Daily Return'' (pct_change_at close))
        ''Volatility'' (rolling_at 30 agg_std (pct_change_at close)))
        ''Resistance'' (rolling_at 30 agg_max high))
        ''Support'' (rolling_at 30 agg_min low))"
  using assms
  by (simp add: indicators_def assign_sma_50_def assign_sma_200_def assign_daily_return_def
      assign_volatility_def assign_key_levels_def key_levels_def rolling_def pct_change_def)

lemma indicators_Inr_numeric:
  assumes "indicators df = Inr e"
  shows "numeric_columns df [''Close'', ''High'', ''Low'']"
  using assms
  by (auto simp: numeric_columns_iff indicators_def assign_sma_50_def assign_sma_200_def
      assign_daily_return_def assign_volatility_def assign_key_levels_def key_levels_def
      rolling_def pct_change_def bind_err_def split: sum.splits if_splits)

lemma length_observations_le: "length (observations cs) \<le> length cs"
  by (induction cs rule: observations.induct) simp_all

lemma observations_full:
  "length (observations cs) = length cs \<longleftrightarrow> (\<forall>c\<in>set cs. \<exists>r. c = Num r)"
proof (induction cs rule: observations.induct)
  case (3 cs)
  have "length (observations cs) < Suc (length cs)"
    using length_observations_le [of cs] by simp
  then show ?case by simp
next
  case (4 cs)
  have "length (observations cs) < Suc (length cs)"
    using length_observations_le [of cs] by simp
  then show ?case by simp
qed simp_all

lemma observations_map_Num:
  "\<forall>i\<in>set js. s i = Num (f i) \<Longrightarrow> observations (map s js) = map f js"
  by (induction js) simp_all

lemma length_window: "length (window w s t) = min w (t + 1)"
  by (simp add: window_def del: upt_Suc)

lemma set_window: "set (window w s t) = s ` {t + 1 - w..t}"
  by (auto simp: window_def)

lemma rolling_at_short: "t + 1 < w \<Longrightarrow> rolling_at w agg s t = Null"
  using length_observations_le [of "window w s t"]
  by (simp add: rolling_at_def length_window Let_def)

lemma rolling_at_full:
  assumes "w \<le> t + 1" and "\<forall>i\<in>{t + 1 - w..t}. s i = Num (f i)"
  shows "rolling_at w agg s t = agg (map f [t + 1 - w..<t + 1])"
proof -
  have "observations (window w s t) = map f [t + 1 - w..<t + 1]"
    unfolding window_def using assms(2) by (intro observations_map_Num) auto
  with assms(1) show ?thesis by (simp add: rolling_at_def Let_def del: upt_Suc)
qed

lemma rolling_at_defined_iff:
  assumes "\<And>xs. length xs = w \<Longrightarrow> agg xs \<noteq> Null"
  shows "rolling_at w agg s t \<noteq> Null
     \<longleftrightarrow> w \<le> t + 1 \<and> (\<forall>i\<in>{t + 1 - w..t}. \<exists>r. s i = Num r)"
proof (cases "w \<le> t + 1")
  case False
  then show ?thesis by (simp add: rolling_at_short)
next
  case True
  have le: "length (observations (window w s t)) \<le> w"
    using length_observations_le [of "window w s t"] True by (simp add: length_window)
  have full: "length (observations (window w s t)) = w
      \<longleftrightarrow> (\<forall>i\<in>{t + 1 - w..t}. \<exists>r. s i = Num r)"
    using observations_full [of "window w s t"] True
    by (simp add: length_window set_window)
  show ?thesis
  proof (cases "length (observations (window w s t)) = w")
    case True
    with assms [OF True] full \<open>w \<le> t + 1\<close> show ?thesis
      by (simp add: rolling_at_def Let_def)
  next
    case False
    with le have "length (observations (window w s t)) < w" by simp
    with False full show ?thesis by (simp add: rolling_at_def Let_def)
  qed
qed

lemma sum_list_upt: "sum_list (map f [a..<Suc b]) = (\<Sum>i = a..b. f i)"
  by (simp only: interv_sum_list_conv_sum_set_nat set_upt atLeastLessThanSuc_atLeastAtMost)

text \<open>
  Claim C5. On a price history of N bars the pipeline returns a table of N rows under
  the same index, and the columns Open, High, Low, Close and Volume of the result are
  the columns of the input: the six assignments add columns and change no bar.
\<close>

theorem pipeline_preserves_bars:
  assumes "numeric_columns df [''Close'', ''High'', ''Low'']"
  shows "\<exists>e. indicators df = Inr e \<and> nrows e = nrows df \<and> index e = index df
           \<and> (\<forall>c\<in>set [''Open'', ''High'', ''Low'', ''Close'', ''Volume''].
                 getcol e c = getcol df c)"
proof -
  from assms obtain close high low where
    "getcol df ''Close'' = Inr close" "numeric (nrows df) close"
    "getcol df ''High'' = Inr high" "numeric (nrows df) high"
    "getcol df ''Low'' = Inr low" "numeric (nrows df) low"
    by (auto simp: numeric_columns_iff)
  from indicators_total [OF this] show ?thesis by simp
qed

theorem pipeline_preserves_bars_witness:
  "numeric_columns (bars [10, 11, 12]) [''Close'', ''High'', ''Low'']
   \<and> (\<exists>e. indicators (bars [10, 11, 12]) = Inr e \<and> nrows e = 3
         \<and> getcol e ''Open'' = Inr (cells [10, 11, 12])
         \<and> getcol e ''High'' = Inr (cells [10, 11, 12])
         \<and> getcol e ''Low'' = Inr (cells [10, 11, 12])
         \<and> getcol e ''Close'' = Inr (cells [10, 11, 12])
         \<and> getcol e ''Volume'' = Inr (\<lambda>t. Num 1000))"
proof -
  have n: "numeric_columns (bars [10, 11, 12]) [''Close'', ''High'', ''Low'']"
    by (simp add: numeric_columns_def bars_def numeric_iff cells_def)
  from pipeline_preserves_bars [OF n] n show ?thesis
    by (auto simp: bars_def getcol_def)
qed

lemma sma_value:
  assumes "w \<le> t + 1" and "0 < w" and "\<forall>i\<in>{t + 1 - w..t}. s i = Num (f i)"
  shows "rolling_at w agg_mean s t = Num ((\<Sum>i = t + 1 - w..t. f i) / real w)"
proof -
  have "length [t + 1 - w..<t + 1] = w" using assms(1) by (simp del: upt_Suc)
  moreover have "sum_list (map f [t + 1 - w..<t + 1]) = (\<Sum>i = t + 1 - w..t. f i)"
    using sum_list_upt [of f "t + 1 - w" t] by (simp del: upt_Suc)
  ultimately show ?thesis
    using assms(2) rolling_at_full [OF assms(1,3), of agg_mean]
    by (simp add: agg_mean_def mean_def del: upt_Suc)
qed

text \<open>
  Claim C6. On a price history whose closes are the numbers \<open>cl 0, cl 1, ...\<close>, the
  column SMA_50 is defined on row \<open>t\<close> exactly when \<open>49 \<le> t\<close>, where it is the sum of
  the closes of rows \<open>t - 49\<close> to \<open>t\<close> divided by 50; with fewer than 50 bars it is
  missing on every row.
\<close>

theorem sma_50_window:
  assumes "numeric_columns df [''Close'', ''High'', ''Low'']"
    and "getcol df ''Close'' = Inr close"
    and "\<forall>t<nrows df. close t = Num (cl t)"
  shows "\<exists>e sma. indicators df = Inr e \<and> getcol e ''SMA_50'' = Inr sma
           \<and> (\<forall>t<nrows df. (sma t \<noteq> Null \<longleftrightarrow> 49 \<le> t)
                  \<and> (49 \<le> t \<longrightarrow> sma t = Num ((\<Sum>i = t - 49..t. cl i) / 50)))
           \<and> (nrows df < 50 \<longrightarrow> (\<forall>t<nrows df. sma t = Null))"
proof -
  from assms(1,2) obtain high low where cols:
    "getcol df ''Close'' = Inr close" "numeric (nrows df) close"
    "getcol df ''High'' = Inr high" "numeric (nrows df) high"
    "getcol df ''Low'' = Inr low" "numeric (nrows df) low"
    by (auto simp: numeric_columns_iff)
  let ?sma = "rolling_at 50 agg_mean close"
  have val: "?sma t = Num ((\<Sum>i = t - 49..t. cl i) / 50)" if "t < nrows df" "49 \<le> t" for t
  proof -
    have "\<forall>i\<in>{t + 1 - 50..t}. close i = Num (cl i)" using assms(3) that by auto
    from sma_value [OF _ _ this] that show ?thesis by simp
  qed
  have early: "?sma t = Null" if "t < 49" for t
    using that by (simp add: rolling_at_short)
  have rows: "(?sma t \<noteq> Null \<longleftrightarrow> 49 \<le> t)
        \<and> (49 \<le> t \<longrightarrow> ?sma t = Num ((\<Sum>i = t - 49..t. cl i) / 50))" if "t < nrows df" for t
    using val [OF that] early [of t] by (cases "49 \<le> t") auto
  have short: "\<forall>t<nrows df. ?sma t = Null" if "nrows df < 50"
    using that early by auto
  have "getcol (setcol (setcol (setcol (setcol (setcol (setcol df
        ''SMA_50'' ?sma)
        ''SMA_200'' (rolling_at 200 agg_mean close))
        ''Daily Return'' (pct_change_at close))
        ''Volatility'' (rolling_at 30 agg_std (pct_change_at close)))
        ''Resistance'' (rolling_at 30 agg_max high))
        ''Support'' (rolling_at 30 agg_min low)) ''SMA_50'' = Inr ?sma"
    by simp
  with indicators_total [OF cols] rows short show ?thesis by blast
qed

theorem sma_50_window_witness:
  "numeric_columns (flat_history 60) [''Close'', ''High'', ''Low'']
   \<and> getcol (flat_history 60) ''Close'' = Inr (\<lambda>t. Num 100)
   \<and> (\<exists>e sma. indicators (flat_history 60) = Inr e \<and> getcol e ''SMA_50'' = Inr sma
         \<and> sma 48 = Null \<and> sma 49 = Num 100 \<and> sma 59 = Num 100)"
proof -
  have n: "numeric_columns (flat_history 60) [''Close'', ''High'', ''Low'']"
    by (simp add: numeric_columns_def flat_history_def const_table_def numeric_iff)
  have c: "getcol (flat_history 60) ''Close'' = Inr (\<lambda>t. Num 100)"
    by (simp add: flat_history_def const_table_def getcol_def)
  have v: "\<forall>t<nrows (flat_history 60). (\<lambda>t. Num 100) t = Num ((\<lambda>t. 100) t)"
    by simp
  have r: "nrows (flat_history 60) = 60"
    by (simp add: flat_history_def const_table_def)
  from sma_50_window [OF n c v] obtain e sma where e: "indicators (flat_history 60) = Inr e"
    "getcol e ''SMA_50'' = Inr sma"
    and rows: "\<forall>t<60. (sma t \<noteq> Null \<longleftrightarrow> 49 \<le> t)
                  \<and> (49 \<le> t \<longrightarrow> sma t = Num ((\<Sum>i = t - 49..t. 100) / 50))"
    unfolding r by blast
  from rows have "sma 48 = Null" "sma 49 = Num 100" "sma 59 = Num 100"
    by (auto dest: spec [of _ 48] spec [of _ 49] spec [of _ 59])
  with n c e show ?thesis by blast
qed

lemma std_value:
  assumes "29 \<le> t" and "\<forall>i\<in>{t - 29..t}. s i = Num (f i)"
  shows "rolling_at 30 agg_std s t
     = Num (sqrt ((\<Sum>i = t - 29..t. (f i - (\<Sum>j = t - 29..t. f j) / 30)\<^sup>2) / 29))"
proof -
  let ?js = "[t - 29..<Suc t]"
  have w: "t + 1 - 30 = t - 29" "t + 1 = Suc t" by simp_all
  have len: "length ?js = 30" using assms(1) by (simp del: upt_Suc)
  have m: "mean (map f ?js) = (\<Sum>j = t - 29..t. f j) / 30"
    unfolding mean_def by (simp only: sum_list_upt length_map len)
  have sq: "sum_list (map (\<lambda>x. (x - mean (map f ?js))\<^sup>2) (map f ?js))
      = (\<Sum>i = t - 29..t. (f i - (\<Sum>j = t - 29..t. f j) / 30)\<^sup>2)"
    unfolding m map_map comp_def by (rule sum_list_upt)
  have "rolling_at 30 agg_std s t = agg_std (map f ?js)"
    using rolling_at_full [of 30 t s f agg_std] assms unfolding w by simp
  also have "\<dots> = Num (sqrt ((\<Sum>i = t - 29..t. (f i - (\<Sum>j = t - 29..t. f j) / 30)\<^sup>2) / 29))"
    unfolding agg_std_def sq by (simp only: length_map len) simp
  finally show ?thesis .
qed

lemma std_defined_iff:
  "rolling_at 30 agg_std s t \<noteq> Null \<longleftrightarrow> 29 \<le> t \<and> (\<forall>i\<in>{t - 29..t}. \<exists>r. s i = Num r)"
proof -
  have "agg_std xs \<noteq> Null" if "length xs = 30" for xs
    using that by (simp add: agg_std_def)
  from rolling_at_defined_iff [of 30 agg_std s t, OF this] show ?thesis
    by (auto simp: Suc_diff_le)
qed

lemma pct_change_at_first: "pct_change_at s 0 = Null"
  by (simp add: pct_change_at_def)

lemma pct_change_at_value:
  "0 < t \<Longrightarrow> s (t - 1) = Num p \<Longrightarrow> s t = Num c \<Longrightarrow> p \<noteq> 0 \<Longrightarrow> pct_change_at s t = Num (c / p - 1)"
  by (simp add: pct_change_at_def)

lemma pct_change_at_defined: "pct_change_at s t \<noteq> Null \<longleftrightarrow> (\<exists>r. pct_change_at s t = Num r)"
  by (auto simp: pct_change_at_def split: cell.splits)

text \<open>
  Claim C7. The column Daily Return is missing on the first row and is
  \<open>Close(t) / Close(t - 1) - 1\<close> on a later row whose two closes are numbers, the
  earlier one not zero. On row \<open>t\<close> the column Volatility is defined exactly when the
  30 daily returns of rows \<open>t - 29\<close> to \<open>t\<close> exist and are defined; so it is missing
  on rows 0 to 29 and, with positive closes, defined on row 30. Where it is defined it is
  the sample standard deviation of these 30 returns: the square root of the sum of their
  squared deviations from their mean, divided by 29.
\<close>

theorem volatility_window:
  assumes "numeric_columns df [''Close'', ''High'', ''Low'']"
    and "getcol df ''Close'' = Inr close"
  shows "\<exists>e ret vol. indicators df = Inr e
           \<and> getcol e ''Daily Return'' = Inr ret \<and> getcol e ''Volatility'' = Inr vol
           \<and> ret 0 = Null
           \<and> (\<forall>t<nrows df. \<forall>p c. 0 < t \<and> close (t - 1) = Num p \<and> close t = Num c \<and> p \<noteq> 0
                  \<longrightarrow> ret t = Num (c / p - 1))
           \<and> (\<forall>t<nrows df. vol t \<noteq> Null \<longleftrightarrow> 29 \<le> t \<and> (\<forall>i\<in>{t - 29..t}. ret i \<noteq> Null))
           \<and> (\<forall>t<nrows df. t \<le> 29 \<longrightarrow> vol t = Null)
           \<and> (\<forall>t<nrows df. \<forall>rv. 29 \<le> t \<and> (\<forall>i\<in>{t - 29..t}. ret i = Num (rv i))
                  \<longrightarrow> vol t = Num (sqrt ((\<Sum>i = t - 29..t.
                                    (rv i - (\<Sum>j = t - 29..t. rv j) / 30)\<^sup>2) / 29)))
           \<and> (30 < nrows df \<and> (\<forall>i\<le>30. \<exists>r. 0 < r \<and> close i = Num r) \<longrightarrow> vol 30 \<noteq> Null)"
proof -
  from assms obtain high low where cols:
    "getcol df ''Close'' = Inr close" "numeric (nrows df) close"
    "getcol df ''High'' = Inr high" "numeric (nrows df) high"
    "getcol df ''Low'' = Inr low" "numeric (nrows df) low"
    by (auto simp: numeric_columns_iff)
  let ?ret = "pct_change_at close"
  let ?vol = "rolling_at 30 agg_std ?ret"
  let ?e = "setcol (setcol (setcol (setcol (setcol (setcol df
        ''SMA_50'' (rolling_at 50 agg_mean close))
        ''SMA_200'' (rolling_at 200 agg_mean close))
        ''Daily Return'' ?ret)
        ''Volatility'' ?vol)
        ''Resistance'' (rolling_at 30 agg_max high))
        ''Support'' (rolling_at 30 agg_min low)"
  have e: "indicators df = Inr ?e" by (rule indicators_total [OF cols])
  have r: "getcol ?e ''Daily Return'' = Inr ?ret" by simp
  have v: "getcol ?e ''Volatility'' = Inr ?vol" by simp
  have iff: "?vol t \<noteq> Null \<longleftrightarrow> 29 \<le> t \<and> (\<forall>i\<in>{t - 29..t}. ?ret i \<noteq> Null)" for t
    unfolding std_defined_iff pct_change_at_defined ..
  have early: "?vol t = Null" if "t \<le> 29" for t
  proof (cases "t = 29")
    case True
    have "?ret 0 = Null" by (rule pct_change_at_first)
    with True iff [of t] show ?thesis by auto
  next
    case False
    with that iff [of t] show ?thesis by auto
  qed
  have val: "?vol t = Num (sqrt ((\<Sum>i = t - 29..t. (rv i - (\<Sum>j = t - 29..t. rv j) / 30)\<^sup>2) / 29))"
    if "29 \<le> t" "\<forall>i\<in>{t - 29..t}. ?ret i = Num (rv i)" for t rv
    using that by (rule std_value)
  have first: "?vol 30 \<noteq> Null" if "\<forall>i\<le>30. \<exists>r. 0 < r \<and> close i = Num r"
  proof -
    have "?ret i \<noteq> Null" if i: "i \<in> {30 - 29..30}" for i
    proof -
      from i have "0 < i" "i - 1 \<le> 30" "i \<le> 30" by auto
      with \<open>\<forall>i\<le>30. \<exists>r. 0 < r \<and> close i = Num r\<close>
      obtain p c where "0 < p" "close (i - 1) = Num p" "close i = Num c" by blast
      with \<open>0 < i\<close> show ?thesis by (simp add: pct_change_at_def)
    qed
    with iff [of 30] show ?thesis by simp
  qed
  from e r v iff early val first pct_change_at_first [of close] pct_change_at_value [of _ close]
  show ?thesis by blast
qed

theorem volatility_window_witness:
  "numeric_columns (flat_history 40) [''Close'', ''High'', ''Low'']
   \<and> getcol (flat_history 40) ''Close'' = Inr (\<lambda>t. Num 100)
   \<and> (\<exists>e ret vol. indicators (flat_history 40) = Inr e
         \<and> getcol e ''Daily Return'' = Inr ret \<and> getcol e ''Volatility'' = Inr vol
         \<and> ret 0 = Null \<and> ret 1 = Num 0 \<and> vol 29 = Null \<and> vol 30 \<noteq> Null \<and> vol 39 = Num 0)"
proof -
  have n: "numeric_columns (flat_history 40) [''Close'', ''High'', ''Low'']"
    by (simp add: numeric_columns_def flat_history_def const_table_def numeric_iff)
  have c: "getcol (flat_history 40) ''Close'' = Inr (\<lambda>t. Num 100)"
    by (simp add: flat_history_def const_table_def getcol_def)
  have r: "nrows (flat_history 40) = 40"
    by (simp add: flat_history_def const_table_def)
  from volatility_window [OF n c] obtain e ret vol where e: "indicators (flat_history 40) = Inr e"
    "getcol e ''Daily Return'' = Inr ret" "getcol e ''Volatility'' = Inr vol" "ret 0 = Null"
    and rets: "\<forall>t<40. \<forall>p c. 0 < t \<and> Num 100 = Num p \<and> Num 100 = Num c \<and> p \<noteq> 0
                  \<longrightarrow> ret t = Num (c / p - 1)"
    and early: "\<forall>t<40. t \<le> 29 \<longrightarrow> vol t = Null"
    and val: "\<forall>t<40. \<forall>rv. 29 \<le> t \<and> (\<forall>i\<in>{t - 29..t}. ret i = Num (rv i))
                  \<longrightarrow> vol t = Num (sqrt ((\<Sum>i = t - 29..t.
                                    (rv i - (\<Sum>j = t - 29..t. rv j) / 30)\<^sup>2) / 29))"
    and first: "30 < (40::nat) \<and> (\<forall>i::nat\<le>30. \<exists>r. 0 < r \<and> Num 100 = Num r) \<longrightarrow> vol 30 \<noteq> Null"
    unfolding r by (elim exE conjE) (rule that; assumption)
  have ret: "ret t = Num 0" if "0 < t" "t < 40" for t
    using rets that by simp
  have "vol 39 = Num 0"
    using val [rule_format, of 39 "\<lambda>i. 0"] ret by simp
  moreover have "vol 29 = Null" using early by simp
  moreover have "vol 30 \<noteq> Null" using first by simp
  moreover have "ret 1 = Num 0" using ret by simp
  ultimately show ?thesis using n c e by blast
qed

lemma getcol_Inr_iff: "getcol df c = Inr s \<longleftrightarrow> map_of (columns df) c = Some s"
  by (simp add: getcol_def split: option.splits)

lemma enriched_shape:
  assumes "indicators df = Inr e"
  shows "\<exists>close. getcol e ''SMA_200'' = Inr (rolling_at 200 agg_mean close)
           \<and> nrows e = nrows df \<and> has_columns e required"
proof -
  from indicators_Inr_numeric [OF assms] obtain close high low where cols:
    "getcol df ''Close'' = Inr close" "numeric (nrows df) close"
    "getcol df ''High'' = Inr high" "numeric (nrows df) high"
    "getcol df ''Low'' = Inr low" "numeric (nrows df) low"
    by (auto simp: numeric_columns_iff)
  from indicators_total [OF cols] assms cols(1) show ?thesis
    by (auto simp: has_columns_def required_def getcol_Inr_iff)
qed

lemma make_decision_final_row:
  assumes "nrows d1 < 200 \<longleftrightarrow> nrows d2 < 200" and "iloc_last d1 = iloc_last d2"
  shows "make_decision d1 = make_decision d2"
  using assms by (simp add: make_decision_def len_def)

lemma short_enriched_holds:
  assumes "indicators d1 = Inr e1" and "nrows e1 < 200"
    and "indicators d2 = Inr e2" and "200 \<le> nrows e2"
    and "iloc_last e1 = iloc_last e2"
  shows "make_decision e2 = Inr hold"
proof -
  from assms(4) obtain latest where l2: "iloc_last e2 = Inr latest"
    using iloc_last_Inr [of e2] by auto
  with assms(5) have l1: "iloc_last e1 = Inr latest" by simp
  then have pos: "0 < nrows e1" by (auto simp: iloc_last_def split: if_splits)
  from enriched_shape [OF assms(1)] obtain close where
    "getcol e1 ''SMA_200'' = Inr (rolling_at 200 agg_mean close)" by blast
  then have "map_of latest ''SMA_200'' = Some (rolling_at 200 agg_mean close (nrows e1 - 1))"
    by (simp add: iloc_last_lookup [OF l1] getcol_Inr_iff)
  moreover have "rolling_at 200 agg_mean close (nrows e1 - 1) = Null"
    using assms(2) pos by (intro rolling_at_short) simp
  ultimately have null: "\<exists>c\<in>set required. map_of latest c = Some Null"
    by (auto simp: required_def)
  from enriched_shape [OF assms(3)] have "has_columns e2 required" by blast
  from make_decision_long [OF assms(4) l2 has_columns_latest [OF this l2]] null
  show ?thesis by simp
qed


lemma rolling_at_const:
  assumes "w \<le> t + 1" and "\<forall>i\<in>{t + 1 - w..t}. s i = Num c"
  shows "rolling_at w agg s t = agg (replicate w c)"
  using rolling_at_full [OF assms(1), of s "\<lambda>i. c" agg] assms
  by (simp add: map_replicate_const del: upt_Suc)

lemma rolling_at_missing:
  assumes "i \<in> {t + 1 - w..t}" and "s i = Null"
  shows "rolling_at w agg s t = Null"
proof -
  have "Null \<in> set (window w s t)" using assms by (auto simp: set_window image_iff intro: bexI [of _ i])
  then have "length (observations (window w s t)) \<noteq> length (window w s t)"
    unfolding observations_full by auto
  with length_observations_le [of "window w s t"]
  have "w \<le> t + 1 \<Longrightarrow> length (observations (window w s t)) < w"
    by (simp add: length_window)
  then show ?thesis
  proof (cases "w \<le> t + 1")
    case True
    with \<open>w \<le> t + 1 \<Longrightarrow> length (observations (window w s t)) < w\<close>
    show ?thesis by (simp add: rolling_at_def Let_def)
  next
    case False
    then show ?thesis by (simp add: rolling_at_short)
  qed
qed

lemma fold_max_replicate: "fold max (replicate n x) (x::real) = x"
  by (induction n) simp_all

lemma fold_min_replicate: "fold min (replicate n x) (x::real) = x"
  by (induction n) simp_all

lemma agg_replicate:
  "0 < n \<Longrightarrow> agg_mean (replicate n c) = Num c"
  "1 < n \<Longrightarrow> agg_std (replicate n c) = Num 0"
  "0 < n \<Longrightarrow> agg_max (replicate n c) = Num c"
  "0 < n \<Longrightarrow> agg_min (replicate n c) = Num c"
proof -
  have m: "mean (replicate n c) = c" if "0 < n" using that
    by (simp add: mean_def sum_list_replicate)
  show "0 < n \<Longrightarrow> agg_mean (replicate n c) = Num c" by (simp add: agg_mean_def m)
  show "1 < n \<Longrightarrow> agg_std (replicate n c) = Num 0"
    by (simp add: agg_std_def m sum_list_replicate)
  show "0 < n \<Longrightarrow> agg_max (replicate n c) = Num c"
    by (cases n) (simp_all add: agg_max_def fold_max_replicate del: fold_replicate)
  show "0 < n \<Longrightarrow> agg_min (replicate n c) = Num c"
    by (cases n) (simp_all add: agg_min_def fold_min_replicate del: fold_replicate)
qed

lemma flat_row:
  assumes "50 \<le> t" and "\<forall>i. 0 < i \<and> i \<le> t \<longrightarrow> close i = Num c" and "c \<noteq> 0"
  shows "rolling_at 50 agg_mean close t = Num c"
    and "pct_change_at close t = Num 0"
    and "rolling_at 30 agg_std (pct_change_at close) t = Num 0"
proof -
  have c: "close i = Num c" if "0 < i" "i \<le> t" for i
    using assms that by auto
  show "rolling_at 50 agg_mean close t = Num c"
    using assms(1) c by (subst rolling_at_const [where c = c]) (auto simp: agg_replicate)
  have p: "pct_change_at close i = Num 0" if "1 < i" "i \<le> t" for i
    using assms(3) that c [of i] c [of "i - 1"] by (simp add: pct_change_at_def)
  from p [of t] assms(1) show "pct_change_at close t = Num 0" by simp
  show "rolling_at 30 agg_std (pct_change_at close) t = Num 0"
    using assms(1) p by (subst rolling_at_const [where c = 0]) (auto simp: agg_replicate)
qed

lemma level_row:
  assumes "30 \<le> t"
  shows "rolling_at 30 agg_max (\<lambda>t. Num c) t = Num c"
    and "rolling_at 30 agg_min (\<lambda>t. Num c) t = Num c"
  using assms by (simp_all add: rolling_at_const [where c = c] agg_replicate)


text \<open>
  Among the tables that the indicator pipeline produces the final row decides alone: a
  pipeline result of fewer than 200 rows has no SMA_200 on its final row, so a longer
  result with the same final row is a HOLD as well.
\<close>

lemma enriched_final_row_decides:
  assumes "indicators d1 = Inr e1" and "indicators d2 = Inr e2"
    and "iloc_last e1 = iloc_last e2"
  shows "make_decision e1 = make_decision e2"
proof -
  consider "nrows e1 < 200 \<longleftrightarrow> nrows e2 < 200"
    | "nrows e1 < 200" "200 \<le> nrows e2" | "nrows e2 < 200" "200 \<le> nrows e1"
    by linarith
  then show ?thesis
  proof cases
    case 1
    then show ?thesis using assms(3) by (rule make_decision_final_row)
  next
    case 2
    from short_enriched_holds [OF assms(1) 2(1) assms(2) 2(2) assms(3)] 2(1)
    show ?thesis by (simp add: make_decision_def len_def)
  next
    case 3
    from short_enriched_holds [OF assms(2) 3(1) assms(1) 3(2) assms(3) [symmetric]] 3(1)
    show ?thesis by (simp add: make_decision_def len_def)
  qed
qed


lemma enriched_final_row_example:
  "\<exists>e1 e2. indicators (flat_history 199) = Inr e1 \<and> indicators (late_history 200) = Inr e2
      \<and> nrows e1 = 199 \<and> nrows e2 = 200
      \<and> iloc_last e1 = iloc_last e2 \<and> make_decision e1 = make_decision e2"
proof -
  let ?c1 = "\<lambda>t::nat. Num 100"
  let ?c2 = "\<lambda>t::nat. if t = 0 then Null else Num 100"
  define e1 where "e1 = setcol (setcol (setcol (setcol (setcol (setcol (flat_history 199)
        ''SMA_50'' (rolling_at 50 agg_mean ?c1))
        ''SMA_200'' (rolling_at 200 agg_mean ?c1))
        ''Daily Return'' (pct_change_at ?c1))
        ''Volatility'' (rolling_at 30 agg_std (pct_change_at ?c1)))
        ''Resistance'' (rolling_at 30 agg_max (\<lambda>t. Num 100)))
        ''Support'' (rolling_at 30 agg_min (\<lambda>t. Num 100))"
  define e2 where "e2 = setcol (setcol (setcol (setcol (setcol (setcol (late_history 200)
        ''SMA_50'' (rolling_at 50 agg_mean ?c2))
        ''SMA_200'' (rolling_at 200 agg_mean ?c2))
        ''Daily Return'' (pct_change_at ?c2))
        ''Volatility'' (rolling_at 30 agg_std (pct_change_at ?c2)))
        ''Resistance'' (rolling_at 30 agg_max (\<lambda>t. Num 100)))
        ''Support'' (rolling_at 30 agg_min (\<lambda>t. Num 100))"
  have i1: "indicators (flat_history 199) = Inr e1"
    unfolding e1_def
    by (rule indicators_total) (simp_all add: flat_history_def const_table_def getcol_def numeric_iff)
  have i2: "indicators (late_history 200) = Inr e2"
    unfolding e2_def
    by (rule indicators_total)
       (simp_all add: late_history_def flat_history_def const_table_def getcol_def setcol_def numeric_iff)
  have s1: "rolling_at 200 agg_mean ?c1 198 = Null"
    by (simp add: rolling_at_short)
  have s2: "rolling_at 200 agg_mean ?c2 199 = Null"
    by (rule rolling_at_missing [of 0]) simp_all
  have f1: "rolling_at 50 agg_mean ?c1 198 = Num 100" "pct_change_at ?c1 198 = Num 0"
    "rolling_at 30 agg_std (pct_change_at ?c1) 198 = Num 0"
    by (simp_all add: flat_row [where c = 100])
  have f2: "rolling_at 50 agg_mean ?c2 199 = Num 100" "pct_change_at ?c2 199 = Num 0"
    "rolling_at 30 agg_std (pct_change_at ?c2) 199 = Num 0"
    by (simp_all add: flat_row [where c = 100])
  have n: "nrows e1 = 199" "nrows e2 = 200"
    by (simp_all add: e1_def e2_def late_history_def flat_history_def const_table_def)
  have r1: "iloc_last e1 = Inr [(''Open'', Num 100), (''High'', Num 100), (''Low'', Num 100),
      (''Close'', Num 100), (''Volume'', Num 1000), (''SMA_50'', Num 100), (''SMA_200'', Null),
      (''Daily Return'', Num 0), (''Volatility'', Num 0), (''Resistance'', Num 100),
      (''Support'', Num 100)]"
    by (simp add: iloc_last_def e1_def setcol_def flat_history_def const_table_def s1 f1 level_row)
  have r2: "iloc_last e2 = Inr [(''Open'', Num 100), (''High'', Num 100), (''Low'', Num 100),
      (''Close'', Num 100), (''Volume'', Num 1000), (''SMA_50'', Num 100), (''SMA_200'', Null),
      (''Daily Return'', Num 0), (''Volatility'', Num 0), (''Resistance'', Num 100),
      (''Support'', Num 100)]"
    by (simp add: iloc_last_def e2_def late_history_def setcol_def flat_history_def const_table_def
        s2 f2 level_row)
  from r1 r2 have rows: "iloc_last e1 = iloc_last e2" by simp
  from enriched_final_row_decides [OF i1 i2 rows] i1 i2 n rows show ?thesis by blast
qed

text \<open>
  Claim C9, amended. The decision is a pure function of two things: whether the table
  has fewer than 200 rows, and its final row. Two tables with identical final rows that
  are both shorter than 200 rows, or both not, get the same recommendation. The final
  row alone does not decide: the example after the theorem has the same final row on
  199 and on 250 rows, a HOLD and a BUY.
\<close>

theorem final_row_decides:
  assumes "nrows d1 < 200 \<longleftrightarrow> nrows d2 < 200" and "iloc_last d1 = iloc_last d2"
  shows "make_decision d1 = make_decision d2"
  using assms by (simp add: make_decision_def len_def)

theorem final_row_decides_witness:
  "(nrows (const_table 250 scenario_row) < 200 \<longleftrightarrow> nrows (const_table 300 scenario_row) < 200)
   \<and> iloc_last (const_table 250 scenario_row) = iloc_last (const_table 300 scenario_row)
   \<and> make_decision (const_table 250 scenario_row) = make_decision (const_table 300 scenario_row)"
  using final_row_decides [of "const_table 250 scenario_row" "const_table 300 scenario_row"]
  by (simp add: const_table_def scenario_row_def iloc_last_def)

theorem final_row_alone_counterexample:
  "iloc_last (const_table 199 scenario_row) = iloc_last (const_table 250 scenario_row)
   \<and> make_decision (const_table 199 scenario_row) = Inr (''HOLD'', None, None, None, None)
   \<and> make_decision (const_table 250 scenario_row)
       = Inr (''BUY'', Some 105, Some 107.1, Some 102.9, Some 2)"
  by (simp add: make_decision_def len_def hold_def const_table_def scenario_row_def iloc_last_def
      required_def getitem_def read_indicators_def)

section \<open>Properties of loading\<close>

text \<open>On a table that has rows and a date index, \<^verbatim>\<open>load_data\<close> returns the table.\<close>

lemma delete_absent: "map_of al k = None \<Longrightarrow> AList.delete k al = al"
  by (induction al) (auto simp: AList.delete_eq split: if_splits)

lemma load_data_returns:
  assumes "download symbol period = Inr df" and "\<not> empty df"
    and "index_name df = Some ''Date''" and "numeric (nrows df) (index df)"
    and "map_of (columns df) ''Date'' = None"
  shows "load_data download symbol period = Inr df"
  using assms
  by (simp add: load_data_def reset_index_def to_datetime_def set_index_def getcol_def
      setcol_def delete_absent)

lemma load_data_example:
  "load_data (\<lambda>symbol period. Inr (flat_history 250)) ''AAPL'' ''1y'' = Inr (flat_history 250)"
  by (rule load_data_returns)
     (simp_all add: flat_history_def const_table_def empty_def numeric_iff)

text \<open>
  Claim C4. When the provider answers with a table without rows, \<^verbatim>\<open>load_data\<close> raises
  the error "No data found for <symbol>." instead of returning the table, and the script
  ends with that error: no recommendation is computed.
\<close>

theorem no_data_raises:
  assumes "download symbol ''1y'' = Inr df" and "nrows df = 0"
  shows "load_data download symbol ''1y'' = Inl (ValueError (''No data found for '' @ symbol @ ''.''))
       \<and> script download (Some symbol) = Failed (ValueError (''No data found for '' @ symbol @ ''.''))"
  using assms by (simp add: load_data_def script_def empty_def)

theorem no_data_raises_witness:
  "nrows (flat_history 0) = 0
   \<and> load_data (\<lambda>symbol period. Inr (flat_history 0)) ''ZZZZ'' ''1y''
       = Inl (ValueError ''No data found for ZZZZ.'')
   \<and> script (\<lambda>symbol period. Inr (flat_history 0)) (Some ''ZZZZ'')
       = Failed (ValueError ''No data found for ZZZZ.'')"
  using no_data_raises [of "\<lambda>symbol period. Inr (flat_history 0)" "''ZZZZ''" "flat_history 0"]
  by (simp add: flat_history_def const_table_def)

end
